theory Spec2Isabelle
  imports Main "HOL-Library.AList"
begin

section \<open>The ingestion script \<^verbatim>\<open>src/ingest.py\<close>, embedded\<close>

text \<open>
  The script copies a local or downloaded file into \<^verbatim>\<open>data/raw\<close>, classifies it by its
  extension, optionally decodes it with pandas and writes a parquet file, and writes a JSON
  sidecar with provenance metadata. Everything the script does to the outside world is made
  explicit here: the file system, the two output streams and the clock are a \<open>world\<close> value
  that every operation takes and returns; a raised exception is \<open>Inl\<close> of an \<open>error\<close>, beside
  the world as it was left. What the script delegates to libraries it does not define
  (pandas' decoders, pyarrow's writer, \<^verbatim>\<open>json.dumps\<close>, SHA-256, the HTTP client, the operating
  system's path resolution) enters as a field of the record \<open>env\<close>.
\<close>

subsection \<open>Strings and paths (\<^verbatim>\<open>pathlib\<close>, POSIX flavour)\<close>

type_synonym bytes = string

text \<open>\<^verbatim>\<open>s.split(sep)\<close> for a one-character separator: always at least one piece.\<close>

fun split_on :: "char \<Rightarrow> string \<Rightarrow> string list" where
  "split_on c [] = [[]]"
| "split_on c (x # xs) =
     (if x = c then [] # split_on c xs
      else (case split_on c xs of [] \<Rightarrow> [[x]] | w # ws \<Rightarrow> (x # w) # ws))"

text \<open>\<^verbatim>\<open>sep.join(xs)\<close>.\<close>

fun join :: "string \<Rightarrow> string list \<Rightarrow> string" where
  "join sep [] = []"
| "join sep [x] = x"
| "join sep (x # y # ys) = x @ sep @ join sep (y # ys)"

text \<open>
  \<^verbatim>\<open>str.lower()\<close> on the ASCII letters. A string is a list of bytes (UTF-8); bytes outside
  ASCII are left as they are. No character outside ASCII lowers to a letter of the
  recognised extensions, so the sniffer below is not affected.
\<close>

definition lower_char :: "char \<Rightarrow> char" where
  "lower_char c =
     (case map_of (zip ''ABCDEFGHIJKLMNOPQRSTUVWXYZ'' ''abcdefghijklmnopqrstuvwxyz'') c of
        None \<Rightarrow> c
      | Some d \<Rightarrow> d)"

definition lower :: "string \<Rightarrow> string" where
  "lower s = map lower_char s"

text \<open>Decimal rendering of a number, as an f-string does it.\<close>

fun str_nat :: "nat \<Rightarrow> string" where
  "str_nat n =
     (if n < 10 then [''0123456789'' ! n]
      else str_nat (n div 10) @ [''0123456789'' ! (n mod 10)])"

definition str_int :: "int \<Rightarrow> string" where
  "str_int i = (if i < 0 then ''-'' @ str_nat (nat (- i)) else str_nat (nat i))"

text \<open>
  A \<^verbatim>\<open>PurePosixPath\<close>: its anchor (empty for a relative path, \<^verbatim>\<open>/\<close> or \<^verbatim>\<open>//\<close>) and its
  components. \<open>Path\<close> is the constructor from a string: empty and \<^verbatim>\<open>.\<close> components are
  dropped, \<^verbatim>\<open>..\<close> is kept.
\<close>

datatype path = PurePath (anchor: string) (parts: "string list")

definition Path :: "string \<Rightarrow> path" where
  "Path s =
     PurePath
       (if take 2 s = ''//'' \<and> take 3 s \<noteq> ''///'' then ''//''
        else if take 1 s = ''/'' then ''/'' else '''')
       (filter (\<lambda>w. w \<noteq> '''' \<and> w \<noteq> ''.'') (split_on (CHR ''/'') s))"

definition path_str :: "path \<Rightarrow> string" where
  "path_str p =
     (if parts p = [] then (if anchor p = '''' then ''.'' else anchor p)
      else anchor p @ join ''/'' (parts p))"

text \<open>\<^verbatim>\<open>base / s\<close>: an anchored right operand replaces the left one.\<close>

definition joinpath :: "path \<Rightarrow> string \<Rightarrow> path" where
  "joinpath base s =
     (let c = Path s
      in if anchor c \<noteq> '''' then c else PurePath (anchor base) (parts base @ parts c))"

definition parent :: "path \<Rightarrow> path" where
  "parent p = PurePath (anchor p) (butlast (parts p))"

definition name :: "path \<Rightarrow> string" where
  "name p = (if parts p = [] then '''' else last (parts p))"

text \<open>\<^verbatim>\<open>name.rfind('.')\<close>: the index of the last dot, or \<open>-1\<close>.\<close>

definition rfind_dot :: "string \<Rightarrow> int" where
  "rfind_dot s =
     (if CHR ''.'' \<in> set s
      then int (length s) - 1 - int (length (takeWhile (\<lambda>c. c \<noteq> CHR ''.'') (rev s)))
      else - 1)"

text \<open>
  \<^verbatim>\<open>suffix\<close> and \<^verbatim>\<open>stem\<close> as pathlib computes them (Python 3.8 to 3.13): the name is cut at
  its last dot unless that dot is the first or the last character.
\<close>

definition suffix :: "path \<Rightarrow> string" where
  "suffix p =
     (let n = name p; i = rfind_dot n
      in if 0 < i \<and> i < int (length n) - 1 then drop (nat i) n else '''')"

definition stem :: "path \<Rightarrow> string" where
  "stem p =
     (let n = name p; i = rfind_dot n
      in if 0 < i \<and> i < int (length n) - 1 then take (nat i) n else n)"

subsection \<open>Exceptions\<close>

text \<open>The exception classes the script can end with, each with its message.\<close>

datatype error =
    FileNotFoundError string
  | IsADirectoryError string
  | NotADirectoryError string
  | FileExistsError string
  | ValueError string
  | RuntimeError string
  | AttributeError string
  | IndexError string
  | KeyError string
  | LibraryError string

text \<open>\<^verbatim>\<open>repr\<close> of a string without quotes or escapes in it, for messages.\<close>

definition quoted :: "string \<Rightarrow> string" where
  "quoted s = [CHR 0x27] @ s @ [CHR 0x27]"

text \<open>
  \<^verbatim>\<open>p.relative_to(root)\<close> is lexical: \<open>root\<close>'s components must be a prefix of \<open>p\<close>'s.
  The wording of the message differs between Python versions; it is never the
  unsupported-format message of \<open>read_any\<close>.
\<close>

definition relative_to :: "path \<Rightarrow> path \<Rightarrow> error + path" where
  "relative_to p root =
     (if anchor p = anchor root \<and> take (length (parts root)) (parts p) = parts root
      then Inr (PurePath '''' (drop (length (parts root)) (parts p)))
      else Inl (ValueError
        (quoted (path_str p) @ '' is not in the subpath of '' @ quoted (path_str root))))"

subsection \<open>Tabular payloads and the metadata record\<close>

text \<open>
  A pandas \<^verbatim>\<open>DataFrame\<close>: the length of its index and its columns in order, each a label
  with its values. Labels are strings or integers (a headerless JSON array gives integer
  labels).
\<close>

datatype label = LStr string | LInt int

datatype cell = CStr string | CInt int | CBool bool | CNull

record dataframe =
  index_len :: nat
  df_cols :: "(label \<times> cell list) list"

definition labels :: "dataframe \<Rightarrow> label list" where
  "labels df = map fst (df_cols df)"

fun str_label :: "label \<Rightarrow> string" where
  "str_label (LStr s) = s"
| "str_label (LInt i) = str_int i"

text \<open>
  \<^verbatim>\<open>df[k] = v\<close> for a scalar \<open>v\<close>: a column labelled \<open>k\<close> is overwritten where it stands
  (every column with that label, should there be several); otherwise a new column is
  appended last.
\<close>

definition setitem :: "dataframe \<Rightarrow> string \<Rightarrow> string \<Rightarrow> dataframe" where
  "setitem df k v =
     (let col = replicate (index_len df) (CStr v)
      in if LStr k \<in> set (labels df)
         then df\<lparr>df_cols := map (\<lambda>(l, c). if l = LStr k then (l, col) else (l, c)) (df_cols df)\<rparr>
         else df\<lparr>df_cols := df_cols df @ [(LStr k, col)]\<rparr>)"

text \<open>
  What \<^verbatim>\<open>pd.read_excel\<close> can return: one frame, or for \<^verbatim>\<open>sheet_name=None\<close> a \<^verbatim>\<open>dict\<close> of
  all sheets by name. A \<^verbatim>\<open>dict\<close> accepts any value under a key, so its values are frames or
  strings.
\<close>

datatype frame_or_dict =
    Frame dataframe
  | SheetDict "(string \<times> (dataframe + string)) list"

text \<open>
  The \<^verbatim>\<open>meta\<close> dictionary. Its first five keys are always present; \<^verbatim>\<open>parquet\<close>, \<^verbatim>\<open>rows\<close>,
  \<^verbatim>\<open>columns\<close> and \<^verbatim>\<open>metadata\<close> are present when their field is not \<open>None\<close>.
\<close>

record meta =
  raw_file :: string
  original_path :: string
  format :: string
  sha256 :: string
  ingested_at :: string
  parquet :: "string option"
  rows :: "int option"
  columns :: "string list option"
  metadata :: "string option"

subsection \<open>The environment and the world\<close>

datatype node = File bytes | Dir

text \<open>
  \<open>ROOT\<close> is \<^verbatim>\<open>Path(__file__).resolve().parents[1]\<close>. \<open>resolve\<close> is the operating system's
  path resolution (working directory, symbolic links); the script creates no links, so it
  is fixed during a run, and the file system is keyed by resolved paths. \<open>requests\<close> is
  \<open>None\<close> when the import of the HTTP client failed; otherwise it maps a URL to the chunks
  of the response body, or to the exception of the request or of \<^verbatim>\<open>raise_for_status\<close>.
  \<open>load_workbook\<close> decodes an Excel file into its sheets, in order.
\<close>

record env =
  ROOT :: path
  resolve :: "path \<Rightarrow> path"
  expanduser :: "path \<Rightarrow> path"
  sha256_hex :: "bytes \<Rightarrow> string"
  utc_now :: "nat \<Rightarrow> string"
  requests :: "(string \<Rightarrow> error + bytes list) option"
  read_csv :: "bytes \<Rightarrow> error + dataframe"
  read_json :: "bytes \<Rightarrow> error + dataframe"
  read_parquet :: "bytes \<Rightarrow> error + dataframe"
  load_workbook :: "bytes \<Rightarrow> error + (string \<times> dataframe) list"
  to_parquet :: "dataframe \<Rightarrow> error + bytes"
  json_dumps :: "meta \<Rightarrow> bytes"

record world =
  fs :: "path \<rightharpoonup> node"
  stdout :: "string list"
  stderr :: "string list"
  clock :: nat

type_synonym 'a result = "(error + 'a) \<times> world"

definition DATA_DIR :: "env \<Rightarrow> path" where
  "DATA_DIR e = joinpath (ROOT e) ''data''"

definition RAW_DIR :: "env \<Rightarrow> path" where
  "RAW_DIR e = joinpath (DATA_DIR e) ''raw''"

definition PROC_DIR :: "env \<Rightarrow> path" where
  "PROC_DIR e = joinpath (joinpath (DATA_DIR e) ''processed'') ''ingested''"

text \<open>\<^verbatim>\<open>print(s)\<close> and \<^verbatim>\<open>print(s, file=sys.stderr)\<close>.\<close>

definition print_out :: "string \<Rightarrow> world \<Rightarrow> world" where
  "print_out s w = w\<lparr>stdout := stdout w @ [s]\<rparr>"

definition print_err :: "string \<Rightarrow> world \<Rightarrow> world" where
  "print_err s w = w\<lparr>stderr := stderr w @ [s]\<rparr>"

text \<open>The \<open>n\<close>-th reading of the clock, already formatted.\<close>

definition utc_now_iso :: "env \<Rightarrow> world \<Rightarrow> string \<times> world" where
  "utc_now_iso e w = (utc_now e (clock w), w\<lparr>clock := Suc (clock w)\<rparr>)"

subsection \<open>File system operations\<close>

definition exists_path :: "env \<Rightarrow> (path \<rightharpoonup> node) \<Rightarrow> path \<Rightarrow> bool" where
  "exists_path e f p = (f (resolve e p) \<noteq> None)"

definition read_bytes :: "env \<Rightarrow> (path \<rightharpoonup> node) \<Rightarrow> path \<Rightarrow> error + bytes" where
  "read_bytes e f p =
     (case f (resolve e p) of
        None \<Rightarrow> Inl (FileNotFoundError (path_str p))
      | Some Dir \<Rightarrow> Inl (IsADirectoryError (path_str p))
      | Some (File b) \<Rightarrow> Inr b)"

text \<open>
  Opening for writing and writing everything: the target must not be a directory and its
  parent must be one.
\<close>

definition write_bytes ::
  "env \<Rightarrow> (path \<rightharpoonup> node) \<Rightarrow> path \<Rightarrow> bytes \<Rightarrow> error + (path \<rightharpoonup> node)" where
  "write_bytes e f p b =
     (let q = resolve e p
      in case f q of
           Some Dir \<Rightarrow> Inl (IsADirectoryError (path_str p))
         | _ \<Rightarrow>
           (case f (parent q) of
              Some Dir \<Rightarrow> Inr (f(q \<mapsto> File b))
            | Some (File _) \<Rightarrow> Inl (NotADirectoryError (path_str p))
            | None \<Rightarrow> Inl (FileNotFoundError (path_str p))))"

text \<open>
  \<^verbatim>\<open>mkdir(parents=True, exist_ok=True)\<close>: every missing directory on the way is created; a
  regular file in the way is an error, and what was created before it stays.
\<close>

fun mkdirs ::
  "(path \<rightharpoonup> node) \<Rightarrow> string \<Rightarrow> string list \<Rightarrow> string list \<Rightarrow> error option \<times> (path \<rightharpoonup> node)" where
  "mkdirs f a pre [] = (None, f)"
| "mkdirs f a pre (x # xs) =
     (case f (PurePath a (pre @ [x])) of
        Some Dir \<Rightarrow> mkdirs f a (pre @ [x]) xs
      | Some (File _) \<Rightarrow>
          (Some (if xs = [] then FileExistsError (path_str (PurePath a (pre @ [x])))
                 else NotADirectoryError (path_str (PurePath a (pre @ [x])))), f)
      | None \<Rightarrow> mkdirs (f(PurePath a (pre @ [x]) \<mapsto> Dir)) a (pre @ [x]) xs)"

definition mkdir_p :: "env \<Rightarrow> path \<Rightarrow> world \<Rightarrow> unit result" where
  "mkdir_p e p w =
     (case mkdirs (fs w) (anchor (resolve e p)) [] (parts (resolve e p)) of
        (Some err, f) \<Rightarrow> (Inl err, w\<lparr>fs := f\<rparr>)
      | (None, f) \<Rightarrow> (Inr (), w\<lparr>fs := f\<rparr>))"

subsection \<open>The script's functions\<close>

definition ensure_dirs :: "env \<Rightarrow> world \<Rightarrow> unit result" where
  "ensure_dirs e w =
     (case mkdir_p e (RAW_DIR e) w of
        (Inl err, w1) \<Rightarrow> (Inl err, w1)
      | (Inr _, w1) \<Rightarrow> mkdir_p e (PROC_DIR e) w1)"

text \<open>
  \<^verbatim>\<open>iter(lambda: f.read(n), b"")\<close>: the chunks of at most \<open>n\<close> bytes, up to the first empty
  read.
\<close>

function read_chunks :: "nat \<Rightarrow> bytes \<Rightarrow> bytes list" where
  "read_chunks n bs = (if n = 0 \<or> bs = [] then [] else take n bs # read_chunks n (drop n bs))"
  by pat_completeness auto
termination
  by (relation "measure (\<lambda>(n, bs). length bs)") auto

declare read_chunks.simps [simp del]

text \<open>
  A \<^verbatim>\<open>hashlib\<close> object is the message it was fed so far: \<^verbatim>\<open>update\<close> appends, and
  \<^verbatim>\<open>hexdigest\<close> is SHA-256 of the whole message.
\<close>

definition sha256_file :: "env \<Rightarrow> (path \<rightharpoonup> node) \<Rightarrow> path \<Rightarrow> error + string" where
  "sha256_file e f p =
     (case read_bytes e f p of
        Inl err \<Rightarrow> Inl err
      | Inr b \<Rightarrow> Inr (sha256_hex e (foldl (\<lambda>h chunk. h @ chunk) [] (read_chunks (1024 * 1024) b))))"

definition download_file :: "env \<Rightarrow> string \<Rightarrow> path \<Rightarrow> world \<Rightarrow> unit result" where
  "download_file e u dest w =
     (case requests e of
        None \<Rightarrow>
          (Inl (RuntimeError ''requests is not installed. Install it or use --input local files.''), w)
      | Some get \<Rightarrow>
          (case mkdir_p e (parent dest) w of
             (Inl err, w1) \<Rightarrow> (Inl err, w1)
           | (Inr _, w1) \<Rightarrow>
               (case get u of
                  Inl err \<Rightarrow> (Inl err, w1)
                | Inr chunks \<Rightarrow>
                    (case write_bytes e (fs w1) dest (concat (filter (\<lambda>c. c \<noteq> []) chunks)) of
                       Inl err \<Rightarrow> (Inl err, w1)
                     | Inr f \<Rightarrow> (Inr (), w1\<lparr>fs := f\<rparr>)))))"

definition sniff_format :: "path \<Rightarrow> string" where
  "sniff_format p =
     (let ext = lower (suffix p)
      in if ext \<in> set [''.csv''] then ''csv''
         else if ext \<in> set [''.json'', ''.geojson''] then ''json''
         else if ext \<in> set [''.xlsx'', ''.xls''] then ''excel''
         else if ext \<in> set [''.parquet''] then ''parquet''
         else ''unknown'')"

text \<open>
  \<^verbatim>\<open>pd.read_excel(path, sheet_name=s)\<close> as pandas documents it: a sheet name selects that
  sheet; \<^verbatim>\<open>None\<close> selects all sheets and returns them as a \<^verbatim>\<open>dict\<close>. (The first sheet alone is
  what pandas returns when the argument is left out, its default being \<open>0\<close>.)
\<close>

definition read_excel :: "env \<Rightarrow> bytes \<Rightarrow> string option \<Rightarrow> error + frame_or_dict" where
  "read_excel e b sheet_name =
     (case load_workbook e b of
        Inl err \<Rightarrow> Inl err
      | Inr wb \<Rightarrow>
          (case sheet_name of
             None \<Rightarrow> Inr (SheetDict (map (\<lambda>(n, df). (n, Inl df)) wb))
           | Some s \<Rightarrow>
               (case map_of wb s of
                  None \<Rightarrow> Inl (ValueError (''Worksheet named '' @ quoted s @ '' not found''))
                | Some df \<Rightarrow> Inr (Frame df))))"

definition decode :: "(bytes \<Rightarrow> error + dataframe) \<Rightarrow> error + bytes \<Rightarrow> error + frame_or_dict" where
  "decode reader r =
     (case r of
        Inl err \<Rightarrow> Inl err
      | Inr b \<Rightarrow> (case reader b of Inl err \<Rightarrow> Inl err | Inr df \<Rightarrow> Inr (Frame df)))"

definition unsupported :: "path \<Rightarrow> error" where
  "unsupported p = ValueError (''Unsupported file format: '' @ name p @ '' ('' @ suffix p @ '')'')"

definition read_any ::
  "env \<Rightarrow> (path \<rightharpoonup> node) \<Rightarrow> path \<Rightarrow> string option \<Rightarrow> error + frame_or_dict" where
  "read_any e f p excel_sheet =
     (let fmt = sniff_format p
      in if fmt = ''csv'' then decode (read_csv e) (read_bytes e f p)
         else if fmt = ''json'' then decode (read_json e) (read_bytes e f p)
         else if fmt = ''excel'' then
           (case read_bytes e f p of
              Inl err \<Rightarrow> Inl err
            | Inr b \<Rightarrow> read_excel e b excel_sheet)
         else if fmt = ''parquet'' then decode (read_parquet e) (read_bytes e f p)
         else Inl (unsupported p))"

text \<open>
  \<^verbatim>\<open>df.to_parquet\<close> exists on a frame only; on a \<^verbatim>\<open>dict\<close> the attribute lookup fails, after the
  parent directory was made.
\<close>

definition write_parquet :: "env \<Rightarrow> frame_or_dict \<Rightarrow> path \<Rightarrow> world \<Rightarrow> unit result" where
  "write_parquet e obj out_path w =
     (case mkdir_p e (parent out_path) w of
        (Inl err, w1) \<Rightarrow> (Inl err, w1)
      | (Inr _, w1) \<Rightarrow>
          (case obj of
             SheetDict _ \<Rightarrow>
               (Inl (AttributeError (quoted ''dict'' @ '' object has no attribute '' @ quoted ''to_parquet'')), w1)
           | Frame df \<Rightarrow>
               (case to_parquet e df of
                  Inl err \<Rightarrow> (Inl err, w1)
                | Inr b \<Rightarrow>
                    (case write_bytes e (fs w1) out_path b of
                       Inl err \<Rightarrow> (Inl err, w1)
                     | Inr f \<Rightarrow> (Inr (), w1\<lparr>fs := f\<rparr>)))))"

definition write_metadata :: "env \<Rightarrow> meta \<Rightarrow> path \<Rightarrow> world \<Rightarrow> unit result" where
  "write_metadata e m out_path w =
     (case mkdir_p e (parent out_path) w of
        (Inl err, w1) \<Rightarrow> (Inl err, w1)
      | (Inr _, w1) \<Rightarrow>
          (case write_bytes e (fs w1) out_path (json_dumps e m) of
             Inl err \<Rightarrow> (Inl err, w1)
           | Inr f \<Rightarrow> (Inr (), w1\<lparr>fs := f\<rparr>)))"

text \<open>\<^verbatim>\<open>RAW_DIR / (raw_name or source_path.name)\<close>: an empty name counts as none.\<close>

definition raw_path_of :: "env \<Rightarrow> path \<Rightarrow> string option \<Rightarrow> path" where
  "raw_path_of e source_path raw_name =
     joinpath (RAW_DIR e)
       (case raw_name of
          None \<Rightarrow> name source_path
        | Some n \<Rightarrow> if n = [] then name source_path else n)"

text \<open>The copy step of \<open>ingest_one\<close>: source read in full, then written to the raw path.\<close>

definition copy_to_raw :: "env \<Rightarrow> path \<Rightarrow> path \<Rightarrow> world \<Rightarrow> unit result" where
  "copy_to_raw e source_path raw_path w =
     (if resolve e source_path \<noteq> resolve e raw_path then
        (case read_bytes e (fs w) source_path of
           Inl err \<Rightarrow> (Inl err, w)
         | Inr b \<Rightarrow>
             (case write_bytes e (fs w) raw_path b of
                Inl err \<Rightarrow> (Inl err, w)
              | Inr f \<Rightarrow> (Inr (), w\<lparr>fs := f\<rparr>)))
      else (Inr (), w))"

text \<open>\<^verbatim>\<open>obj[k] = v\<close> on what the reader returned: a column of a frame, or a key of a dict.\<close>

fun stamp :: "frame_or_dict \<Rightarrow> string \<Rightarrow> string \<Rightarrow> frame_or_dict" where
  "stamp (Frame df) k v = Frame (setitem df k v)"
| "stamp (SheetDict d) k v = SheetDict (AList.update k (Inr v) d)"

text \<open>
  The body of \<^verbatim>\<open>if not skip_parquet\<close>. \<open>ts\<close> is \<^verbatim>\<open>meta["ingested_at"]\<close>. A dict has a length
  but no \<^verbatim>\<open>columns\<close>.
\<close>

definition convert :: "env \<Rightarrow> path \<Rightarrow> string option \<Rightarrow> string \<Rightarrow> meta \<Rightarrow> world \<Rightarrow> meta result" where
  "convert e raw_path excel_sheet ts m w =
     (case read_any e (fs w) raw_path excel_sheet of
        Inl err \<Rightarrow> (Inl err, w)
      | Inr obj0 \<Rightarrow>
          (let obj = stamp (stamp obj0 ''source_file'' (name raw_path)) ''ingested_at'' ts;
               out_parquet = joinpath (PROC_DIR e) (stem raw_path @ ''.parquet'')
           in case write_parquet e obj out_parquet w of
                (Inl err, w1) \<Rightarrow> (Inl err, w1)
              | (Inr _, w1) \<Rightarrow>
                  (case relative_to out_parquet (ROOT e) of
                     Inl err \<Rightarrow> (Inl err, w1)
                   | Inr rel \<Rightarrow>
                       (case obj of
                          SheetDict _ \<Rightarrow>
                            (Inl (AttributeError
                               (quoted ''dict'' @ '' object has no attribute '' @ quoted ''columns'')), w1)
                        | Frame df \<Rightarrow>
                            (Inr (m\<lparr>parquet := Some (path_str rel),
                                    rows := Some (int (index_len df)),
                                    columns := Some (map str_label (labels df))\<rparr>), w1)))))"

definition ingest_one ::
  "env \<Rightarrow> path \<Rightarrow> string option \<Rightarrow> string option \<Rightarrow> bool \<Rightarrow> world \<Rightarrow> meta result" where
  "ingest_one e source_path raw_name excel_sheet skip_parquet w =
     (case ensure_dirs e w of
        (Inl err, w1) \<Rightarrow> (Inl err, w1)
      | (Inr _, w1) \<Rightarrow>
          if \<not> exists_path e (fs w1) source_path
          then (Inl (FileNotFoundError (path_str source_path)), w1)
          else
            (let raw_path = raw_path_of e source_path raw_name
             in case copy_to_raw e source_path raw_path w1 of
                  (Inl err, w2) \<Rightarrow> (Inl err, w2)
                | (Inr _, w2) \<Rightarrow>
                    (case relative_to raw_path (ROOT e) of
                       Inl err \<Rightarrow> (Inl err, w2)
                     | Inr rel \<Rightarrow>
                         (case sha256_file e (fs w2) raw_path of
                            Inl err \<Rightarrow> (Inl err, w2)
                          | Inr digest \<Rightarrow>
                              (case utc_now_iso e w2 of
                                 (ts, w3) \<Rightarrow>
                                   (case
                                      (let m = \<lparr>raw_file = path_str rel,
                                                original_path = path_str source_path,
                                                format = sniff_format raw_path,
                                                sha256 = digest,
                                                ingested_at = ts,
                                                parquet = None, rows = None, columns = None,
                                                metadata = None\<rparr>
                                       in if \<not> skip_parquet then convert e raw_path excel_sheet ts m w3
                                          else (Inr m, w3))
                                    of
                                      (Inl err, w4) \<Rightarrow> (Inl err, w4)
                                    | (Inr m, w4) \<Rightarrow>
                                        (let meta_path =
                                               joinpath (PROC_DIR e) (stem raw_path @ ''.meta.json'')
                                         in case write_metadata e m meta_path w4 of
                                              (Inl err, w5) \<Rightarrow> (Inl err, w5)
                                            | (Inr _, w5) \<Rightarrow>
                                                (case relative_to meta_path (ROOT e) of
                                                   Inl err \<Rightarrow> (Inl err, w5)
                                                 | Inr mrel \<Rightarrow>
                                                     (Inr (m\<lparr>metadata := Some (path_str mrel)\<rparr>), w5)))))))))"

text \<open>
  The namespace \<^verbatim>\<open>parse_args\<close> returns: \<^verbatim>\<open>--input\<close>, \<^verbatim>\<open>--url\<close>, \<^verbatim>\<open>--name\<close> (each a list,
  empty when the option is not used), \<^verbatim>\<open>--excel-sheet\<close> and \<^verbatim>\<open>--skip-parquet\<close>.
\<close>

record args =
  args_input :: "string list"
  args_url :: "string list"
  args_name :: "string list"
  args_excel_sheet :: "string option"
  args_skip_parquet :: bool

text \<open>The check mark of the success lines, in UTF-8.\<close>

definition check_mark :: string where
  "check_mark = [CHR 0xE2, CHR 0x9C, CHR 0x93]"

text \<open>
  \<^verbatim>\<open>args.name[i] if args.name else Path(url.split("?")[0]).name or f"download_{i}"\<close>: with
  names given, the \<open>i\<close>-th one as it is; otherwise the last component of the URL before its
  query, or \<^verbatim>\<open>download_i\<close> when that is empty.
\<close>

definition fname_of :: "args \<Rightarrow> nat \<Rightarrow> string \<Rightarrow> error + string" where
  "fname_of a i u =
     (if args_name a \<noteq> [] then
        (if i < length (args_name a) then Inr (args_name a ! i)
         else Inl (IndexError ''list index out of range''))
      else
        (let n = name (Path (hd (split_on (CHR ''?'') u)))
         in Inr (if n \<noteq> [] then n else ''download_'' @ str_nat i)))"

text \<open>The loop over \<^verbatim>\<open>enumerate(args.url)\<close>, from index \<open>i\<close> on.\<close>

fun download_all :: "env \<Rightarrow> args \<Rightarrow> nat \<Rightarrow> string list \<Rightarrow> world \<Rightarrow> unit result" where
  "download_all e a i [] w = (Inr (), w)"
| "download_all e a i (u # us) w =
     (case fname_of a i u of
        Inl err \<Rightarrow> (Inl err, w)
      | Inr fname \<Rightarrow>
          (let dest = joinpath (RAW_DIR e) fname;
               w1 = print_out (''Downloading: '' @ u @ '' -> '' @ path_str dest) w
           in case download_file e u dest w1 of
                (Inl err, w2) \<Rightarrow> (Inl err, w2)
              | (Inr _, w2) \<Rightarrow>
                  (case ingest_one e dest (Some fname) (args_excel_sheet a) (args_skip_parquet a) w2 of
                     (Inl err, w3) \<Rightarrow> (Inl err, w3)
                   | (Inr m, w3) \<Rightarrow>
                       (case metadata m of
                          None \<Rightarrow> (Inl (KeyError (quoted ''metadata'')), w3)
                        | Some mp \<Rightarrow>
                            download_all e a (Suc i) us
                              (print_out (check_mark @ '' Ingested '' @ fname @ '' (meta: '' @ mp @ '')'') w3)))))"

text \<open>The loop over \<^verbatim>\<open>args.input\<close>.\<close>

fun ingest_inputs :: "env \<Rightarrow> args \<Rightarrow> string list \<Rightarrow> world \<Rightarrow> unit result" where
  "ingest_inputs e a [] w = (Inr (), w)"
| "ingest_inputs e a (p # ps) w =
     (let pth = expanduser e (Path p);
          w1 = print_out (''Ingesting local file: '' @ path_str pth) w
      in case ingest_one e pth None (args_excel_sheet a) (args_skip_parquet a) w1 of
           (Inl err, w2) \<Rightarrow> (Inl err, w2)
         | (Inr m, w2) \<Rightarrow>
             (case metadata m of
                None \<Rightarrow> (Inl (KeyError (quoted ''metadata'')), w2)
              | Some mp \<Rightarrow>
                  ingest_inputs e a ps
                    (print_out (check_mark @ '' Ingested '' @ name pth @ '' (meta: '' @ mp @ '')'') w2)))"

text \<open>
  The block \<^verbatim>\<open>if args.url:\<close> of \<open>main\<close>. \<open>Inr (Some 2)\<close> is its \<^verbatim>\<open>return 2\<close>; \<open>Inr None\<close> is
  falling through to the local files.
\<close>

definition handle_downloads :: "env \<Rightarrow> args \<Rightarrow> world \<Rightarrow> (int option) result" where
  "handle_downloads e a w =
     (if args_url a \<noteq> [] then
        (if args_name a \<noteq> [] \<and> length (args_name a) \<noteq> length (args_url a) then
           (Inr (Some 2),
            print_err ''ERROR: --name must be provided the same number of times as --url (or not used).'' w)
         else
           (case download_all e a 0 (args_url a) w of
              (Inl err, w1) \<Rightarrow> (Inl err, w1)
            | (Inr _, w1) \<Rightarrow> (Inr None, w1)))
      else (Inr None, w))"

text \<open>\<open>main\<close> on the parsed arguments: an exit code, or the exception that ended the run.\<close>

definition main :: "env \<Rightarrow> args \<Rightarrow> world \<Rightarrow> int result" where
  "main e a w =
     (case ensure_dirs e w of
        (Inl err, w1) \<Rightarrow> (Inl err, w1)
      | (Inr _, w1) \<Rightarrow>
          (case handle_downloads e a w1 of
             (Inl err, w2) \<Rightarrow> (Inl err, w2)
           | (Inr (Some rc), w2) \<Rightarrow> (Inr rc, w2)
           | (Inr None, w2) \<Rightarrow>
               (case ingest_inputs e a (args_input a) w2 of
                  (Inl err, w3) \<Rightarrow> (Inl err, w3)
                | (Inr _, w3) \<Rightarrow>
                    if args_url a = [] \<and> args_input a = [] then
                      (Inr 2, print_err ''Nothing to ingest. Use --input <file> or --url <link>.'' w3)
                    else
                      (Inr 0,
                       print_out
                         ([CHR 0x0A] @ ''Done.'' @ [CHR 0x0A] @ ''- Raw: '' @ path_str (RAW_DIR e) @
                          [CHR 0x0A] @ ''- Processed: '' @ path_str (PROC_DIR e)) w3))))"

subsection \<open>A small environment and world to run the model on\<close>

text \<open>
  The script lives in \<^verbatim>\<open>/proj/src\<close>, the working directory is \<^verbatim>\<open>/work\<close>, no link is in the
  way, and \<^verbatim>\<open>requests\<close> is not installed. The decoders know two CSV files: \<open>demo_csv\<close> with
  the columns \<open>a\<close> and \<open>b\<close>, and \<open>stamped_csv\<close>, whose header already has a column
  \<^verbatim>\<open>source_file\<close>. The hash, the serialisers and the clock are stand-ins.
\<close>

definition demo_frame :: dataframe where
  "demo_frame = \<lparr>index_len = 2, df_cols = [(LStr ''a'', [CInt 1, CInt 3]), (LStr ''b'', [CInt 2, CInt 4])]\<rparr>"

definition demo_csv :: bytes where
  "demo_csv = ''a,b'' @ [CHR 0x0A] @ ''1,2'' @ [CHR 0x0A] @ ''3,4'' @ [CHR 0x0A]"

definition stamped_frame :: dataframe where
  "stamped_frame = \<lparr>index_len = 1, df_cols = [(LStr ''source_file'', [CStr ''old.csv'']), (LStr ''a'', [CInt 1])]\<rparr>"

definition stamped_csv :: bytes where
  "stamped_csv = ''source_file,a'' @ [CHR 0x0A] @ ''old.csv,1'' @ [CHR 0x0A]"

definition demo_env :: env where
  "demo_env =
     \<lparr>ROOT = PurePath ''/'' [''proj''],
      resolve = (\<lambda>p. if anchor p = '''' then PurePath ''/'' (''work'' # parts p) else p),
      expanduser = (\<lambda>p. p),
      sha256_hex = (\<lambda>b. ''sha256:'' @ b),
      utc_now = (\<lambda>n. ''2024-01-01T00:00:0'' @ str_nat n @ ''+00:00''),
      requests = None,
      read_csv = (\<lambda>b. if b = demo_csv then Inr demo_frame
                       else if b = stamped_csv then Inr stamped_frame
                       else Inl (LibraryError ''ParserError'')),
      read_json = (\<lambda>b. Inl (LibraryError ''ValueError'')),
      read_parquet = (\<lambda>b. Inl (LibraryError ''ArrowInvalid'')),
      load_workbook = (\<lambda>b. Inr [(''Sheet1'', demo_frame)]),
      to_parquet = (\<lambda>df. Inr (''PAR1:'' @ concat (map str_label (labels df)))),
      json_dumps = (\<lambda>m. ''{'' @ raw_file m @ '','' @ format m @ '','' @ sha256 m @ ''}'')\<rparr>"

definition demo_world :: world where
  "demo_world =
     \<lparr>fs = map_of [(PurePath ''/'' [], Dir), (PurePath ''/'' [''work''], Dir),
                   (PurePath ''/'' [''proj''], Dir),
                   (PurePath ''/'' [''proj'', ''data''], Dir),
                   (PurePath ''/'' [''proj'', ''data'', ''raw''], Dir),
                   (PurePath ''/'' [''proj'', ''data'', ''raw'', ''kept.csv''], File demo_csv),
                   (PurePath ''/'' [''work'', ''t.csv''], File demo_csv),
                   (PurePath ''/'' [''work'', ''old.csv''], File stamped_csv),
                   (PurePath ''/'' [''work'', ''book.xlsx''], File ''PK''),
                   (PurePath ''/'' [''work'', ''notes.txt''], File ''hello'')],
      stdout = [], stderr = [], clock = 0\<rparr>"

text \<open>The table of the format sniffer in the specification's words, on the extension.\<close>

definition sniff_spec :: "string \<Rightarrow> string" where
  "sniff_spec ext =
     (if ext = ''.csv'' then ''csv''
      else if ext = ''.json'' \<or> ext = ''.geojson'' then ''json''
      else if ext = ''.xlsx'' \<or> ext = ''.xls'' then ''excel''
      else if ext = ''.parquet'' then ''parquet''
      else ''unknown'')"

section \<open>Properties\<close>

subsection \<open>What each operation leaves alone\<close>

text \<open>
  Making directories never touches what exists; a write changes one path; neither prints
  or reads the clock.
\<close>

lemma mkdirs_frame:
  "mkdirs f a pre xs = (r, f') \<Longrightarrow> f' q = f q \<or> (f q = None \<and> f' q = Some Dir)"
proof (induction xs arbitrary: f pre)
  case Nil
  then show ?case by simp
next
  case (Cons x xs)
  show ?case
  proof (cases "f (PurePath a (pre @ [x]))")
    case None
    with Cons.prems have "mkdirs (f(PurePath a (pre @ [x]) \<mapsto> Dir)) a (pre @ [x]) xs = (r, f')"
      by simp
    from Cons.IH [OF this] None show ?thesis
      by (auto split: if_splits)
  next
    case (Some n)
    show ?thesis
    proof (cases n)
      case (File b)
      with Some Cons.prems show ?thesis by auto
    next
      case Dir
      with Some Cons.prems have "mkdirs f a (pre @ [x]) xs = (r, f')" by simp
      from Cons.IH [OF this] show ?thesis .
    qed
  qed
qed

lemma mkdir_p_frame:
  assumes "mkdir_p e p w = (r, w')"
  shows "stdout w' = stdout w \<and> stderr w' = stderr w \<and> clock w' = clock w \<and>
         (fs w' q = fs w q \<or> (fs w q = None \<and> fs w' q = Some Dir))"
proof -
  obtain eo f where m: "mkdirs (fs w) (anchor (resolve e p)) [] (parts (resolve e p)) = (eo, f)"
    by (cases "mkdirs (fs w) (anchor (resolve e p)) [] (parts (resolve e p))")
  from assms m have w': "w' = w\<lparr>fs := f\<rparr>"
    by (cases eo) (auto simp: mkdir_p_def)
  from mkdirs_frame [OF m, of q] w' show ?thesis by simp
qed

lemma ensure_dirs_frame:
  assumes "ensure_dirs e w = (r, w')"
  shows "stdout w' = stdout w \<and> stderr w' = stderr w \<and> clock w' = clock w \<and>
         (fs w' q = fs w q \<or> (fs w q = None \<and> fs w' q = Some Dir))"
proof -
  obtain r1 w1 where m1: "mkdir_p e (RAW_DIR e) w = (r1, w1)"
    by (cases "mkdir_p e (RAW_DIR e) w")
  note f1 = mkdir_p_frame [OF m1, of q]
  show ?thesis
  proof (cases r1)
    case (Inl err)
    with assms m1 have "w' = w1" by (simp add: ensure_dirs_def)
    with f1 show ?thesis by simp
  next
    case (Inr u)
    with assms m1 have m2: "mkdir_p e (PROC_DIR e) w1 = (r, w')" by (simp add: ensure_dirs_def)
    from f1 mkdir_p_frame [OF m2, of q] show ?thesis by auto
  qed
qed

lemma concat_read_chunks: "concat (read_chunks n bs) = (if n = 0 then [] else bs)"
proof (induction n bs rule: read_chunks.induct)
  case (1 n bs)
  show ?case
  proof (cases "n = 0 \<or> bs = []")
    case True
    then show ?thesis by (subst read_chunks.simps) auto
  next
    case False
    with "1" have "concat (read_chunks n (drop n bs)) = drop n bs" by simp
    moreover from False have "read_chunks n bs = take n bs # read_chunks n (drop n bs)"
      by (subst read_chunks.simps) simp
    ultimately show ?thesis using False by simp
  qed
qed

lemma foldl_append_chunks: "foldl (\<lambda>h chunk. h @ chunk) acc cs = acc @ concat cs"
  by (induction cs arbitrary: acc) simp_all

lemma sha256_file_eq:
  "sha256_file e f p = (case read_bytes e f p of Inl err \<Rightarrow> Inl err | Inr b \<Rightarrow> Inr (sha256_hex e b))"
  by (simp add: sha256_file_def foldl_append_chunks concat_read_chunks split: sum.splits)

lemma write_bytes_Inr:
  "write_bytes e f p b = Inr f' \<Longrightarrow> f' = f(resolve e p \<mapsto> File b)"
  by (auto simp: write_bytes_def Let_def split: option.splits node.splits)

lemma read_bytes_Inr:
  "(read_bytes e f p = Inr b) = (f (resolve e p) = Some (File b))"
  by (auto simp: read_bytes_def split: option.splits node.splits)

lemma copy_to_raw_Inr:
  assumes "copy_to_raw e src raw w = (Inr u, w')"
  shows "(resolve e src = resolve e raw \<and> w' = w) \<or>
         (resolve e src \<noteq> resolve e raw \<and>
          (\<exists>b. fs w (resolve e src) = Some (File b) \<and> w' = w\<lparr>fs := (fs w)(resolve e raw \<mapsto> File b)\<rparr>))"
  using assms
  by (auto simp: copy_to_raw_def read_bytes_Inr split: if_splits sum.splits dest!: write_bytes_Inr)

lemma copy_to_raw_frame:
  assumes "copy_to_raw e src raw w = (r, w')"
  shows "stdout w' = stdout w \<and> stderr w' = stderr w \<and> clock w' = clock w \<and>
         (q \<noteq> resolve e raw \<longrightarrow> fs w' q = fs w q)"
  using assms
  by (auto simp: copy_to_raw_def split: if_splits sum.splits dest!: write_bytes_Inr)

lemma write_metadata_frame:
  assumes "write_metadata e m p w = (r, w')"
  shows "stdout w' = stdout w \<and> stderr w' = stderr w \<and> clock w' = clock w \<and>
         (q \<noteq> resolve e p \<longrightarrow> fs w' q = fs w q \<or> (fs w q = None \<and> fs w' q = Some Dir))"
proof -
  obtain r1 w1 where m1: "mkdir_p e (parent p) w = (r1, w1)"
    by (cases "mkdir_p e (parent p) w")
  note f1 = mkdir_p_frame [OF m1, of q]
  from assms m1 have "w' = w1 \<or> (\<exists>f. write_bytes e (fs w1) p (json_dumps e m) = Inr f \<and> w' = w1\<lparr>fs := f\<rparr>)"
    by (auto simp: write_metadata_def split: sum.splits)
  with f1 show ?thesis by (auto dest!: write_bytes_Inr)
qed

lemma write_parquet_frame:
  assumes "write_parquet e obj p w = (r, w')"
  shows "stdout w' = stdout w \<and> stderr w' = stderr w \<and> clock w' = clock w \<and>
         (q \<noteq> resolve e p \<longrightarrow> fs w' q = fs w q \<or> (fs w q = None \<and> fs w' q = Some Dir))"
proof -
  obtain r1 w1 where m1: "mkdir_p e (parent p) w = (r1, w1)"
    by (cases "mkdir_p e (parent p) w")
  note f1 = mkdir_p_frame [OF m1, of q]
  from assms m1 have "w' = w1 \<or> (\<exists>f b. write_bytes e (fs w1) p b = Inr f \<and> w' = w1\<lparr>fs := f\<rparr>)"
    by (auto simp: write_parquet_def split: sum.splits frame_or_dict.splits)
  with f1 show ?thesis by (auto dest!: write_bytes_Inr)
qed

lemmas path_defs = Path_def joinpath_def parent_def name_def suffix_def stem_def rfind_dot_def
  path_str_def relative_to_def DATA_DIR_def RAW_DIR_def PROC_DIR_def raw_path_of_def

lemmas fs_defs = exists_path_def read_bytes_def write_bytes_def mkdir_p_def ensure_dirs_def
  copy_to_raw_def write_metadata_def write_parquet_def utc_now_iso_def

lemmas demo_defs = demo_env_def demo_world_def demo_csv_def demo_frame_def stamped_csv_def
  stamped_frame_def

subsection \<open>The format sniffer\<close>

text \<open>
  Claim C7. The sniffer's label is a function of the path's extension alone, compared after
  lowering its case: \<^verbatim>\<open>.csv\<close> gives csv, \<^verbatim>\<open>.json\<close> and \<^verbatim>\<open>.geojson\<close> give json,
  \<^verbatim>\<open>.xlsx\<close> and \<^verbatim>\<open>.xls\<close> give excel, \<^verbatim>\<open>.parquet\<close> gives parquet, and every other
  extension gives unknown. It takes no file system, so it inspects no content.
\<close>

theorem sniff_format_by_extension:
  "sniff_format p = sniff_spec (lower (suffix p)) \<and>
   (sniff_format p = ''csv'') = (lower (suffix p) = ''.csv'') \<and>
   (sniff_format p = ''json'') = (lower (suffix p) \<in> {''.json'', ''.geojson''}) \<and>
   (sniff_format p = ''excel'') = (lower (suffix p) \<in> {''.xlsx'', ''.xls''}) \<and>
   (sniff_format p = ''parquet'') = (lower (suffix p) = ''.parquet'') \<and>
   (sniff_format p = ''unknown'') =
     (lower (suffix p) \<notin> {''.csv'', ''.json'', ''.geojson'', ''.xlsx'', ''.xls'', ''.parquet''})"
  by (simp add: sniff_format_def sniff_spec_def Let_def)

theorem sniff_format_by_extension_witness:
  "sniff_format (Path ''Data/T.CsV'') = ''csv'' \<and>
   sniff_format (Path ''shapes.GeoJSON'') = ''json'' \<and>
   sniff_format (Path ''/x/book.XLS'') = ''excel'' \<and>
   sniff_format (Path ''archive.tar.gz'') = ''unknown'' \<and>
   sniff_format (Path ''.csv'') = ''unknown''"
proof -
  have ext:
    "lower (suffix (Path ''Data/T.CsV'')) = ''.csv''"
    "lower (suffix (Path ''shapes.GeoJSON'')) = ''.geojson''"
    "lower (suffix (Path ''/x/book.XLS'')) = ''.xls''"
    "lower (suffix (Path ''archive.tar.gz'')) = ''.gz''"
    "lower (suffix (Path ''.csv'')) = []"
    by (simp_all add: path_defs lower_def lower_char_def)
  show ?thesis
    using sniff_format_by_extension [of "Path ''Data/T.CsV''"]
      sniff_format_by_extension [of "Path ''shapes.GeoJSON''"]
      sniff_format_by_extension [of "Path ''/x/book.XLS''"]
      sniff_format_by_extension [of "Path ''archive.tar.gz''"]
      sniff_format_by_extension [of "Path ''.csv''"]
    by (simp add: ext sniff_spec_def)
qed

subsection \<open>The copy step when the source already is the raw file\<close>

text \<open>
  Claim C10. When the source path resolves to the same location as the raw destination, the
  copy step of \<open>ingest_one\<close> does nothing: it succeeds and leaves the whole world, so also the
  bytes of the raw file, as it found them. This is the case of a file that \<open>main\<close> has just
  downloaded to \<^verbatim>\<open>RAW_DIR / fname\<close> and ingests under the name \<open>fname\<close>, whatever the
  path resolution is.
\<close>

theorem copy_skipped_when_same_location:
  "(resolve e source_path = resolve e raw_path \<longrightarrow>
      copy_to_raw e source_path raw_path w = (Inr (), w)) \<and>
   (fname \<noteq> [] \<longrightarrow>
      copy_to_raw e (joinpath (RAW_DIR e) fname)
        (raw_path_of e (joinpath (RAW_DIR e) fname) (Some fname)) w = (Inr (), w))"
  by (simp add: copy_to_raw_def raw_path_of_def)

theorem copy_skipped_when_same_location_witness:
  "resolve demo_env (Path ''/proj/data/raw/kept.csv'') =
     resolve demo_env (raw_path_of demo_env (Path ''/proj/data/raw/kept.csv'') None) \<and>
   copy_to_raw demo_env (Path ''/proj/data/raw/kept.csv'')
     (raw_path_of demo_env (Path ''/proj/data/raw/kept.csv'') None) demo_world = (Inr (), demo_world) \<and>
   fs demo_world (resolve demo_env (raw_path_of demo_env (Path ''/proj/data/raw/kept.csv'') None)) =
     Some (File demo_csv)"
proof -
  have same: "resolve demo_env (Path ''/proj/data/raw/kept.csv'') =
     resolve demo_env (raw_path_of demo_env (Path ''/proj/data/raw/kept.csv'') None)"
    by (simp add: path_defs demo_env_def)
  have stored: "fs demo_world (resolve demo_env (raw_path_of demo_env (Path ''/proj/data/raw/kept.csv'') None)) =
     Some (File demo_csv)"
    by (simp add: path_defs demo_env_def demo_world_def)
  from copy_skipped_when_same_location
    [of demo_env "Path ''/proj/data/raw/kept.csv''"
        "raw_path_of demo_env (Path ''/proj/data/raw/kept.csv'') None" demo_world "''x''"] same stored
  show ?thesis by simp
qed

end
